theory Spec2Isabelle
  imports Main "HOL-Library.Sublist" "HOL-Library.Multiset" "HOL-Library.AList"
begin

section \<open>Strings\<close>

text \<open>
  Strings are lists of 8-bit characters, a character standing for the code
  point of its number, U+0000 to U+00FF (Latin-1); text with a code point
  beyond is outside the model. The three string methods the gallery uses are
  modelled on that alphabet, where they act as follows. \<open>toLowerCase\<close> works
  character by character: the letters A to Z (65 to 90) and the capital
  letters U+00C0 to U+00DE but the multiplication sign U+00D7 go to the
  character 32 places on, every other character stays. \<open>trim\<close> strips white
  space and line terminators from both ends: tab, line feed, vertical tab,
  form feed, carriage return, space and the no-break space U+00A0.
  \<open>includes\<close> is the contiguous-substring test.
\<close>

definition char_lower :: "char \<Rightarrow> char" where
  "char_lower c =
     (let n = (of_char c :: nat)
      in if (65 \<le> n \<and> n \<le> 90) \<or> (192 \<le> n \<and> n \<le> 222 \<and> n \<noteq> 215)
         then char_of (n + 32) else c)"

definition toLowerCase :: "string \<Rightarrow> string" where
  "toLowerCase s = map char_lower s"

definition is_space :: "char \<Rightarrow> bool" where
  "is_space c = ((of_char c :: nat) \<in> {9, 10, 11, 12, 13, 32, 160})"

definition trim :: "string \<Rightarrow> string" where
  "trim s = rev (dropWhile is_space (rev (dropWhile is_space s)))"

definition str_includes :: "string \<Rightarrow> string \<Rightarrow> bool" where
  "str_includes s q = sublist q s"

section \<open>The gallery's data\<close>

text \<open>
  \<open>interface GalleryImage\<close>: the \<open>type\<close> field is a union of five string
  literals, the optional fields are \<open>option\<close> values (\<open>None\<close> is
  \<open>undefined\<close>), and \<open>createdAt\<close> is the time value of a valid \<open>Date\<close>
  (what \<open>getTime()\<close> returns, in milliseconds).
\<close>

datatype image_type = Generated | Unblurred | Upscaled | BackgroundRemoved | Batch

fun type_name :: "image_type \<Rightarrow> string" where
  "type_name Generated = ''generated''"
| "type_name Unblurred = ''unblurred''"
| "type_name Upscaled = ''upscaled''"
| "type_name BackgroundRemoved = ''background-removed''"
| "type_name Batch = ''batch''"

record GalleryImage =
  id_img :: string
  url :: string
  prompt :: string
  type :: image_type
  size_img :: "string option"
  quality :: "string option"
  style :: "string option"
  scale :: "string option"
  mode :: "string option"
  filename :: "string option"
  createdAt :: int
  isFavorite :: bool

section \<open>Filtering and sorting\<close>

text \<open>
  The predicate of the search filter:
  \<open>img.prompt.toLowerCase().includes(q) || img.filename?.toLowerCase().includes(q)\<close>
  with \<open>q = searchQuery.toLowerCase()\<close>. A missing filename makes the second
  disjunct \<open>undefined\<close>, which is falsy.
\<close>

definition matches_search :: "string \<Rightarrow> GalleryImage \<Rightarrow> bool" where
  "matches_search searchQuery img =
     (str_includes (toLowerCase (prompt img)) (toLowerCase searchQuery) \<or>
      (case filename img of
         None \<Rightarrow> False
       | Some f \<Rightarrow> str_includes (toLowerCase f) (toLowerCase searchQuery)))"

text \<open>
  The comparator handed to \<open>sort\<close>, with its \<open>switch\<close> on
  \<open>sortBy\<close>. The sort reads only the sign of the number returned, and the
  difference of two time values has the sign of their integer difference.
\<close>

definition compare_images :: "string \<Rightarrow> GalleryImage \<Rightarrow> GalleryImage \<Rightarrow> int" where
  "compare_images sortBy a b =
     (if sortBy = ''newest'' then createdAt b - createdAt a
      else if sortBy = ''oldest'' then createdAt a - createdAt b
      else if sortBy = ''favorites'' then
        (if isFavorite a \<and> \<not> isFavorite b then - 1
         else if \<not> isFavorite a \<and> isFavorite b then 1
         else createdAt b - createdAt a)
      else 0)"

text \<open>
  \<open>Array.prototype.sort\<close> with a comparator. The language standard requires
  the sort to be stable, so for a consistent comparator the result is the one
  stable ordering, whatever algorithm the engine runs; it is computed here by
  insertion from the right, an element going in front of the first element it
  does not compare greater than.
\<close>

fun insert_by :: "('a \<Rightarrow> 'a \<Rightarrow> int) \<Rightarrow> 'a \<Rightarrow> 'a list \<Rightarrow> 'a list" where
  "insert_by cmp x [] = [x]"
| "insert_by cmp x (y # ys) =
     (if cmp x y \<le> 0 then x # y # ys else y # insert_by cmp x ys)"

definition array_sort :: "('a \<Rightarrow> 'a \<Rightarrow> int) \<Rightarrow> 'a list \<Rightarrow> 'a list" where
  "array_sort cmp xs = foldr (insert_by cmp) xs []"

text \<open>
  The body of \<open>filterAndSortImages\<close> as a function of the four values it
  reads: a copy of \<open>images\<close>, the search filter when the trimmed query is
  not empty, the type filter unless it is \<open>all\<close>, then the sort.
\<close>

definition filtered_sorted ::
  "GalleryImage list \<Rightarrow> string \<Rightarrow> string \<Rightarrow> string \<Rightarrow> GalleryImage list" where
  "filtered_sorted imgs searchQuery filterType sortBy =
     (let filtered = imgs;
          filtered = (if trim searchQuery \<noteq> [] then filter (matches_search searchQuery) filtered
                      else filtered);
          filtered = (if filterType \<noteq> ''all''
                      then filter (\<lambda>img. type_name (type img) = filterType) filtered
                      else filtered)
      in array_sort (compare_images sortBy) filtered)"

section \<open>Persistence and the component's state\<close>

text \<open>
  The untyped values of the language that the store and the loading code
  meet: the six kinds of JSON value (numbers as integers), \<open>undefined\<close>,
  and \<open>JDate v\<close> for the object \<open>new Date(v)\<close>, whose parsing of \<open>v\<close>
  is left to the engine. A stored text is kept up to JSON parsing: a text that
  \<open>JSON.parse\<close> accepts is given by the value it parses to, any other text
  (the empty string among them) by its characters.
\<close>

datatype jsval =
    JUndefined
  | JNull
  | JBool bool
  | JNum int
  | JStr string
  | JArr "jsval list"
  | JObj "(string \<times> jsval) list"
  | JDate jsval

datatype stored_text = JSON jsval | NotJSON string

datatype error = SyntaxError | TypeError | QuotaExceededError

text \<open>
  \<open>localStorage\<close>: the stored items, the writes the browser will accept
  (\<open>setItem\<close> throws when the quota is exceeded) and the log of the writes
  made so far.
\<close>

record storage =
  items :: "string \<rightharpoonup> stored_text"
  accepts :: "string \<Rightarrow> stored_text \<Rightarrow> bool"
  writes :: "(string \<times> stored_text) list"

definition getItem :: "string \<Rightarrow> storage \<Rightarrow> stored_text option" where
  "getItem k st = items st k"

definition setItem :: "string \<Rightarrow> stored_text \<Rightarrow> storage \<Rightarrow> error + storage" where
  "setItem k v st =
     (if accepts st k v
      then Inr (st\<lparr>items := (items st)(k \<mapsto> v), writes := writes st @ [(k, v)]\<rparr>)
      else Inl QuotaExceededError)"

record gallery =
  images :: "GalleryImage list"
  filteredImages :: "GalleryImage list"
  searchQuery :: string
  filterType :: string
  sortBy :: string
  localStorage :: storage
  toasts :: "(string \<times> string) list"

definition filterAndSortImages :: "gallery \<Rightarrow> gallery" where
  "filterAndSortImages g =
     g\<lparr>filteredImages :=
         filtered_sorted (images g) (searchQuery g) (filterType g) (sortBy g)\<rparr>"

subsection \<open>Serialising the collection\<close>

text \<open>
  \<open>JSON.stringify\<close> writes a \<open>Date\<close> as its \<open>toISOString()\<close>: the
  proleptic Gregorian date and the UTC time of day of the time value, as
  \<open>YYYY-MM-DDTHH:mm:ss.sssZ\<close>, the year with a sign and six digits when it is
  outside 0 to 9999.
\<close>

definition digit_char :: "nat \<Rightarrow> char" where
  "digit_char d = char_of (48 + d)"

fun digits :: "nat \<Rightarrow> nat \<Rightarrow> string" where
  "digits 0 n = []"
| "digits (Suc k) n = digits k (n div 10) @ [digit_char (n mod 10)]"

definition civil_from_days :: "int \<Rightarrow> int \<times> nat \<times> nat" where
  "civil_from_days d =
     (let z = d + 719468;
          era = z div 146097;
          doe = z mod 146097;
          yoe = (doe - doe div 1460 + doe div 36524 - doe div 146096) div 365;
          doy = doe - (365 * yoe + yoe div 4 - yoe div 100);
          mp = (5 * doy + 2) div 153;
          dd = doy - (153 * mp + 2) div 5 + 1;
          mm = (if mp < 10 then mp + 3 else mp - 9);
          yy = yoe + era * 400 + (if mm \<le> 2 then 1 else 0)
      in (yy, nat mm, nat dd))"

definition toISOString :: "int \<Rightarrow> string" where
  "toISOString t =
     (let (yy, mm, dd) = civil_from_days (t div 86400000);
          ms = nat (t mod 86400000);
          year = (if 0 \<le> yy \<and> yy \<le> 9999 then digits 4 (nat yy)
                  else (if yy < 0 then ''-'' else ''+'') @ digits 6 (nat \<bar>yy\<bar>))
      in year @ ''-'' @ digits 2 mm @ ''-'' @ digits 2 dd @ ''T'' @
         digits 2 (ms div 3600000) @ '':'' @ digits 2 (ms div 60000 mod 60) @ '':'' @
         digits 2 (ms div 1000 mod 60) @ ''.'' @ digits 3 (ms mod 1000) @ ''Z'')"

text \<open>
  The JSON text of one image: its properties in the order of the interface, an
  optional property left out when it is \<open>undefined\<close>.
\<close>

definition optional_prop :: "string \<Rightarrow> string option \<Rightarrow> (string \<times> jsval) list" where
  "optional_prop k v = (case v of None \<Rightarrow> [] | Some s \<Rightarrow> [(k, JStr s)])"

definition image_json :: "GalleryImage \<Rightarrow> jsval" where
  "image_json img =
     JObj ([(''id'', JStr (id_img img)), (''url'', JStr (url img)),
            (''prompt'', JStr (prompt img)), (''type'', JStr (type_name (type img)))]
           @ optional_prop ''size'' (size_img img) @ optional_prop ''quality'' (quality img)
           @ optional_prop ''style'' (style img) @ optional_prop ''scale'' (scale img)
           @ optional_prop ''mode'' (mode img) @ optional_prop ''filename'' (filename img)
           @ [(''createdAt'', JStr (toISOString (createdAt img))),
              (''isFavorite'', JBool (isFavorite img))])"

definition JSON_stringify :: "GalleryImage list \<Rightarrow> stored_text" where
  "JSON_stringify imgs = JSON (JArr (map image_json imgs))"


subsection \<open>The mutating operations\<close>

text \<open>
  \<open>saveImages\<close> writes the whole collection under the one key and only then
  replaces the collection in memory; when \<open>setItem\<close> throws, the exception
  leaves the handler and \<open>setImages\<close> is never reached.
\<close>

definition saveImages :: "GalleryImage list \<Rightarrow> gallery \<Rightarrow> error + gallery" where
  "saveImages updatedImages g =
     (case setItem ''gallery-images'' (JSON_stringify updatedImages) (localStorage g) of
        Inl e \<Rightarrow> Inl e
      | Inr st \<Rightarrow> Inr (g\<lparr>localStorage := st, images := updatedImages\<rparr>))"

definition toast :: "string \<Rightarrow> string \<Rightarrow> gallery \<Rightarrow> gallery" where
  "toast title description g = g\<lparr>toasts := toasts g @ [(title, description)]\<rparr>"

definition toggleFavorite :: "string \<Rightarrow> gallery \<Rightarrow> error + gallery" where
  "toggleFavorite imageId g =
     (let updatedImages =
            map (\<lambda>img. if id_img img = imageId then img\<lparr>isFavorite := \<not> isFavorite img\<rparr>
                        else img) (images g)
      in case saveImages updatedImages g of
           Inl e \<Rightarrow> Inl e
         | Inr g' \<Rightarrow>
             Inr (toast ''Favorite updated'' ''Image favorite status has been updated.'' g'))"

definition deleteImage :: "string \<Rightarrow> gallery \<Rightarrow> error + gallery" where
  "deleteImage imageId g =
     (let updatedImages = filter (\<lambda>img. id_img img \<noteq> imageId) (images g)
      in case saveImages updatedImages g of
           Inl e \<Rightarrow> Inl e
         | Inr g' \<Rightarrow>
             Inr (toast ''Image deleted'' ''Image has been removed from your gallery.'' g'))"

subsection \<open>Loading\<close>














section \<open>A small gallery\<close>

text \<open>
  Two images, a cat generated first and a dog upscaled later and marked as a
  favourite, in a gallery with an empty store that accepts every write.
\<close>

definition cat :: GalleryImage where
  "cat = \<lparr>id_img = ''1'', url = ''https://img/1.png'', prompt = ''a cat'', type = Generated,
          size_img = None, quality = None, style = None, scale = None, mode = None,
          filename = None, createdAt = 1000, isFavorite = False\<rparr>"

definition dog :: GalleryImage where
  "dog = \<lparr>id_img = ''2'', url = ''https://img/2.png'', prompt = ''a dog'', type = Upscaled,
          size_img = None, quality = None, style = None, scale = Some ''2x'', mode = None,
          filename = Some ''Dog.png'', createdAt = 2000, isFavorite = True\<rparr>"

definition empty_store :: storage where
  "empty_store = \<lparr>items = Map.empty, accepts = (\<lambda>k v. True), writes = []\<rparr>"

definition small_gallery :: gallery where
  "small_gallery =
     \<lparr>images = [cat, dog], filteredImages = [], searchQuery = [], filterType = ''all'',
      sortBy = ''newest'', localStorage = empty_store, toasts = []\<rparr>"







section \<open>Properties of the query\<close>

lemma mset_insert_by: "mset (insert_by cmp x ys) = add_mset x (mset ys)"
  by (induction ys) simp_all

lemma mset_array_sort: "mset (array_sort cmp xs) = mset xs"
  by (induction xs) (simp_all add: array_sort_def mset_insert_by)

lemma trim_blank: "(trim s = []) = (\<forall>c \<in> set s. is_space c)"
proof -
  have "(\<forall>c \<in> set (dropWhile is_space s). is_space c) = (dropWhile is_space s = [])"
    using hd_dropWhile [of is_space s]
    by (cases "dropWhile is_space s") (auto dest: set_dropWhileD)
  then show ?thesis
    by (simp add: trim_def)
qed

lemma latin1_letters_and_space:
  "toLowerCase [char_of (201 :: nat)] = [char_of (233 :: nat)]
   \<and> toLowerCase [char_of (215 :: nat)] = [char_of (215 :: nat)]
   \<and> trim [char_of (160 :: nat)] = []"
  by code_simp

lemma set_insert_by: "set (insert_by cmp x ys) = insert x (set ys)"
  by (induction ys) auto

lemma set_array_sort: "set (array_sort cmp xs) = set xs"
  by (induction xs) (simp_all add: array_sort_def set_insert_by)

lemma set_filtered_sorted:
  "set (filtered_sorted imgs q ft sb) =
     {r \<in> set imgs. (trim q \<noteq> [] \<longrightarrow> matches_search q r)
                    \<and> (ft \<noteq> ''all'' \<longrightarrow> type_name (type r) = ft)}"
  by (auto simp: filtered_sorted_def Let_def set_array_sort)

lemma toLowerCase_append: "toLowerCase (a @ b) = toLowerCase a @ toLowerCase b"
  by (simp add: toLowerCase_def)

lemma matches_search_iff:
  "matches_search q r =
     (sublist (toLowerCase q) (toLowerCase (prompt r))
      \<or> (\<exists>f. filename r = Some f \<and> sublist (toLowerCase q) (toLowerCase f)))"
  by (simp add: matches_search_def str_includes_def split: option.splits)

lemma sorted_insert_by:
  assumes trans: "\<And>a b c. cmp a b \<le> 0 \<Longrightarrow> cmp b c \<le> 0 \<Longrightarrow> cmp a c \<le> 0"
    and total: "\<And>a b. cmp a b \<le> 0 \<or> cmp b a \<le> 0"
    and "sorted_wrt (\<lambda>a b. cmp a b \<le> 0) ys"
  shows "sorted_wrt (\<lambda>a b. cmp a b \<le> 0) (insert_by cmp x ys)"
  using assms(3)
proof (induction ys)
  case Nil
  then show ?case by simp
next
  case (Cons y ys)
  show ?case
  proof (cases "cmp x y \<le> 0")
    case True
    with Cons.prems show ?thesis
      by (auto intro: trans)
  next
    case False
    with total [of x y] have "cmp y x \<le> 0" by simp
    with False Cons show ?thesis
      by (auto simp: set_insert_by)
  qed
qed

lemma sorted_array_sort:
  assumes "\<And>a b c. cmp a b \<le> 0 \<Longrightarrow> cmp b c \<le> 0 \<Longrightarrow> cmp a c \<le> 0"
    and "\<And>a b. cmp a b \<le> 0 \<or> cmp b a \<le> 0"
  shows "sorted_wrt (\<lambda>a b. cmp a b \<le> 0) (array_sort cmp xs)"
proof (induction xs)
  case Nil
  then show ?case by (simp add: array_sort_def)
next
  case (Cons x xs)
  from sorted_insert_by [of cmp, OF assms Cons] show ?case
    by (simp add: array_sort_def)
qed

lemma favorites_le_iff:
  "(compare_images ''favorites'' a b \<le> 0) =
     ((isFavorite a \<and> \<not> isFavorite b) \<or> (isFavorite a = isFavorite b \<and> createdAt b \<le> createdAt a))"
  by (auto simp: compare_images_def)

lemma insert_by_insort_key:
  assumes "\<And>a b. (cmp a b \<le> 0) = (f a \<le> f b)"
  shows "insert_by cmp x ys = insort_key f x ys"
  by (induction ys) (simp_all add: assms)

lemma array_sort_sort_key:
  assumes "\<And>a b. (cmp a b \<le> 0) = (f a \<le> f b)"
  shows "array_sort cmp xs = sort_key f xs"
  by (induction xs) (simp_all add: array_sort_def sort_key_def insert_by_insort_key [OF assms])

lemma oldest_sort_key: "array_sort (compare_images ''oldest'') xs = sort_key createdAt xs"
  by (rule array_sort_sort_key) (simp add: compare_images_def)

lemma newest_sort_key:
  "array_sort (compare_images ''newest'') xs = sort_key (\<lambda>img. - createdAt img) xs"
  by (rule array_sort_sort_key) (simp add: compare_images_def)

lemma rev_newest_oldest:
  assumes "distinct (map createdAt xs)"
  shows "rev (sort_key (\<lambda>img. - createdAt img) xs) = sort_key createdAt xs"
proof -
  let ?ys = "rev (sort_key (\<lambda>img. - createdAt img) xs)"
  let ?zs = "sort_key createdAt xs"
  have "sorted (map (\<lambda>img. - createdAt img) (sort_key (\<lambda>img. - createdAt img) xs))"
    by (rule sorted_sort_key)
  then have sy: "sorted (map createdAt ?ys)"
    by (simp add: sorted_map sorted_wrt_rev)
  have sz: "sorted (map createdAt ?zs)"
    by (rule sorted_sort_key)
  have my: "mset ?ys = mset xs" and mz: "mset ?zs = mset xs"
    by simp_all
  from assms have inj: "inj_on createdAt (set xs)" and dx: "distinct xs"
    by (simp_all add: distinct_map)
  have sety: "set ?ys = set xs" and setz: "set ?zs = set xs"
    by simp_all
  have dy: "distinct (map createdAt ?ys)"
    using inj dx by (simp add: distinct_map)
  have dz: "distinct (map createdAt ?zs)"
    using inj dx by (simp add: distinct_map)
  have "map createdAt ?ys = map createdAt ?zs"
    by (rule sorted_distinct_set_unique [OF sy dy sz dz]) simp
  moreover have "inj_on createdAt (set ?ys \<union> set ?zs)"
    using inj by simp
  ultimately show ?thesis
    by (simp only: inj_on_map_eq_map)
qed

text \<open>
  C4. With a search text that is empty or holds white space only and the type
  filter \<open>all\<close>, the query returns a permutation of the collection, for
  every sort key (every string, the three known keys among them): each record
  appears as often in the result as in the collection. The query changes only
  \<open>filteredImages\<close>: the collection and the store are as before.
\<close>

theorem query_blank_all_is_permutation:
  assumes "\<forall>c \<in> set (searchQuery g). is_space c"
    and "filterType g = ''all''"
  shows "mset (filteredImages (filterAndSortImages g)) = mset (images g)
       \<and> images (filterAndSortImages g) = images g
       \<and> localStorage (filterAndSortImages g) = localStorage g"
proof -
  from assms(1) have "trim (searchQuery g) = []"
    by (simp add: trim_blank)
  with assms(2) show ?thesis
    by (simp add: filterAndSortImages_def filtered_sorted_def mset_array_sort)
qed

theorem query_blank_all_is_permutation_witness:
  "list_all is_space (searchQuery (small_gallery\<lparr>searchQuery := ''  '', sortBy := ''favorites''\<rparr>))
   \<and> filterType (small_gallery\<lparr>searchQuery := ''  '', sortBy := ''favorites''\<rparr>) = ''all''
   \<and> mset (filteredImages
        (filterAndSortImages (small_gallery\<lparr>searchQuery := ''  '', sortBy := ''favorites''\<rparr>)))
     = mset [cat, dog]"
proof -
  have h1: "\<forall>c \<in> set (searchQuery (small_gallery\<lparr>searchQuery := ''  '', sortBy := ''favorites''\<rparr>)).
      is_space c"
    by (simp add: is_space_def)
  have h2: "filterType (small_gallery\<lparr>searchQuery := ''  '', sortBy := ''favorites''\<rparr>) = ''all''"
    by (simp add: small_gallery_def)
  from query_blank_all_is_permutation [OF h1 h2] h1 h2 show ?thesis
    by (simp add: small_gallery_def list_all_iff)
qed

text \<open>
  C5, as the code has it. With a search text that is not blank, a record is in
  the result exactly when it is in the collection, the lower-cased search text
  is a substring of its lower-cased prompt or of its lower-cased filename, and
  the type filter lets it through. So a record matching neither prompt nor
  filename is excluded; and a record of the collection is included whenever
  the search text is, up to letter case, a substring of its prompt and the
  type filter is \<open>all\<close> or the record's own type.
\<close>

theorem search_is_case_insensitive_substring:
  assumes "\<exists>c \<in> set (searchQuery g). \<not> is_space c"
  shows "(r \<in> set (filteredImages (filterAndSortImages g)) \<longleftrightarrow>
            r \<in> set (images g)
            \<and> (sublist (toLowerCase (searchQuery g)) (toLowerCase (prompt r))
               \<or> (\<exists>f. filename r = Some f
                      \<and> sublist (toLowerCase (searchQuery g)) (toLowerCase f)))
            \<and> (filterType g = ''all'' \<or> type_name (type r) = filterType g))
       \<and> (r \<in> set (images g) \<and> prompt r = pre @ u @ post
            \<and> toLowerCase u = toLowerCase (searchQuery g)
            \<and> (filterType g = ''all'' \<or> type_name (type r) = filterType g)
          \<longrightarrow> r \<in> set (filteredImages (filterAndSortImages g)))"
proof -
  from assms have nb: "trim (searchQuery g) \<noteq> []"
    by (simp add: trim_blank)
  have char: "r \<in> set (filteredImages (filterAndSortImages g)) \<longleftrightarrow>
            r \<in> set (images g)
            \<and> (sublist (toLowerCase (searchQuery g)) (toLowerCase (prompt r))
               \<or> (\<exists>f. filename r = Some f
                      \<and> sublist (toLowerCase (searchQuery g)) (toLowerCase f)))
            \<and> (filterType g = ''all'' \<or> type_name (type r) = filterType g)"
    using nb by (auto simp: filterAndSortImages_def set_filtered_sorted matches_search_iff)
  have "sublist (toLowerCase (searchQuery g)) (toLowerCase (prompt r))"
    if "prompt r = pre @ u @ post" and "toLowerCase u = toLowerCase (searchQuery g)"
  proof -
    from that have "toLowerCase (prompt r) =
        toLowerCase pre @ toLowerCase (searchQuery g) @ toLowerCase post"
      by (simp add: toLowerCase_append)
    then show ?thesis by simp
  qed
  with char show ?thesis by blast
qed

theorem search_is_case_insensitive_substring_witness:
  "cat \<in> set (filteredImages (filterAndSortImages (small_gallery\<lparr>searchQuery := ''CAT''\<rparr>)))
   \<and> dog \<notin> set (filteredImages (filterAndSortImages (small_gallery\<lparr>searchQuery := ''CAT''\<rparr>)))
   \<and> dog \<in> set (filteredImages (filterAndSortImages (small_gallery\<lparr>searchQuery := ''dog.''\<rparr>)))"
proof -
  have nb: "\<exists>c \<in> set (searchQuery (small_gallery\<lparr>searchQuery := ''CAT''\<rparr>)). \<not> is_space c"
    by (simp add: is_space_def)
  have nb2: "\<exists>c \<in> set (searchQuery (small_gallery\<lparr>searchQuery := ''dog.''\<rparr>)). \<not> is_space c"
    by (simp add: is_space_def)
  have low: "toLowerCase ''cat'' = toLowerCase ''CAT''"
    by code_simp
  have 1: "cat \<in> set (filteredImages (filterAndSortImages (small_gallery\<lparr>searchQuery := ''CAT''\<rparr>)))"
  proof -
    have "cat \<in> set (images (small_gallery\<lparr>searchQuery := ''CAT''\<rparr>))"
      and "prompt cat = ''a '' @ ''cat'' @ []"
      and "filterType (small_gallery\<lparr>searchQuery := ''CAT''\<rparr>) = ''all''"
      and "toLowerCase ''cat'' = toLowerCase (searchQuery (small_gallery\<lparr>searchQuery := ''CAT''\<rparr>))"
      using low by (simp_all add: small_gallery_def cat_def)
    with search_is_case_insensitive_substring [OF nb, of cat "''a ''" "''cat''" "[]"]
    show ?thesis by blast
  qed
  have 2: "dog \<notin> set (filteredImages (filterAndSortImages (small_gallery\<lparr>searchQuery := ''CAT''\<rparr>)))"
  proof -
    have "\<not> sublist (toLowerCase ''CAT'') (toLowerCase (prompt dog))"
      and "\<not> sublist (toLowerCase ''CAT'') (toLowerCase ''Dog.png'')"
      by code_simp+
    with search_is_case_insensitive_substring [OF nb, of dog "[]" "[]" "[]"] show ?thesis
      by (simp add: small_gallery_def dog_def)
  qed
  have 3: "dog \<in> set (filteredImages (filterAndSortImages (small_gallery\<lparr>searchQuery := ''dog.''\<rparr>)))"
  proof -
    have "sublist (toLowerCase ''dog.'') (toLowerCase ''Dog.png'')"
      by code_simp
    with search_is_case_insensitive_substring [OF nb2, of dog "[]" "[]" "[]"] show ?thesis
      by (simp add: small_gallery_def dog_def)
  qed
  from 1 2 3 show ?thesis by simp
qed

text \<open>
  The claim as it was written fails on the small gallery with the search text
  \<open>cat\<close> and the type filter \<open>upscaled\<close>: the text is a substring of the
  cat's prompt, and the generated cat is not in the result, which is empty.
\<close>

theorem search_includes_prompt_match_counterexample:
  "cat \<in> set (images (small_gallery\<lparr>searchQuery := ''cat'', filterType := ''upscaled''\<rparr>))
   \<and> prompt cat = ''a '' @ ''cat'' @ []
   \<and> trim (searchQuery (small_gallery\<lparr>searchQuery := ''cat'', filterType := ''upscaled''\<rparr>)) \<noteq> []
   \<and> filteredImages
        (filterAndSortImages (small_gallery\<lparr>searchQuery := ''cat'', filterType := ''upscaled''\<rparr>))
      = []"
proof -
  have "trim ''cat'' \<noteq> []"
    by (simp add: trim_def is_space_def)
  moreover have "\<not> matches_search ''cat'' dog"
    by code_simp
  ultimately show ?thesis
    by (simp add: filterAndSortImages_def filtered_sorted_def small_gallery_def array_sort_def
        cat_def dog_def)
qed

text \<open>
  C6. Sorted by \<open>favorites\<close>, whatever the search text and the type filter,
  the result has no favourite after a non-favourite, and of two records with
  the same \<open>isFavorite\<close> the one that comes first is at least as new.
\<close>

theorem favorites_first_then_newest:
  assumes "sortBy g = ''favorites''"
  shows "sorted_wrt (\<lambda>a b. (isFavorite b \<longrightarrow> isFavorite a)
                          \<and> (isFavorite a = isFavorite b \<longrightarrow> createdAt b \<le> createdAt a))
           (filteredImages (filterAndSortImages g))"
proof -
  have "sorted_wrt (\<lambda>a b. compare_images ''favorites'' a b \<le> 0)
          (array_sort (compare_images ''favorites'') xs)" for xs
    by (rule sorted_array_sort) (auto simp: favorites_le_iff)
  then have "sorted_wrt (\<lambda>a b. (isFavorite b \<longrightarrow> isFavorite a)
                          \<and> (isFavorite a = isFavorite b \<longrightarrow> createdAt b \<le> createdAt a))
          (array_sort (compare_images ''favorites'') xs)" for xs
    by (rule sorted_wrt_mono_rel [rotated]) (auto simp: favorites_le_iff)
  with assms show ?thesis
    by (simp add: filterAndSortImages_def filtered_sorted_def Let_def)
qed

theorem favorites_first_then_newest_witness:
  "filteredImages (filterAndSortImages (small_gallery\<lparr>sortBy := ''favorites''\<rparr>)) = [dog, cat]
   \<and> sorted_wrt (\<lambda>a b. (isFavorite b \<longrightarrow> isFavorite a)
                       \<and> (isFavorite a = isFavorite b \<longrightarrow> createdAt b \<le> createdAt a))
        [dog, cat]"
proof -
  have s: "sortBy (small_gallery\<lparr>sortBy := ''favorites''\<rparr>) = ''favorites''"
    by simp
  have e: "filteredImages (filterAndSortImages (small_gallery\<lparr>sortBy := ''favorites''\<rparr>)) = [dog, cat]"
    by (simp add: filterAndSortImages_def filtered_sorted_def small_gallery_def trim_def
        array_sort_def compare_images_def cat_def dog_def)
  from favorites_first_then_newest [OF s] e show ?thesis
    by simp
qed

text \<open>
  C7. When the records of the collection have pairwise distinct
  \<open>createdAt\<close> values, the result sorted by \<open>newest\<close>, reversed, is the
  result sorted by \<open>oldest\<close>, for the same search text and type filter.
\<close>

theorem newest_reversed_is_oldest:
  assumes "distinct (map createdAt (images g))"
  shows "rev (filteredImages (filterAndSortImages (g\<lparr>sortBy := ''newest''\<rparr>)))
       = filteredImages (filterAndSortImages (g\<lparr>sortBy := ''oldest''\<rparr>))"
proof -
  have "distinct (map createdAt (filter P (images g)))" for P
    using assms by (rule distinct_map_filter)
  then have "distinct (map createdAt (filter P (filter Q (images g))))" for P Q
    by (simp add: distinct_map_filter)
  with assms \<open>\<And>P. distinct (map createdAt (filter P (images g)))\<close> show ?thesis
    by (simp add: filterAndSortImages_def filtered_sorted_def Let_def oldest_sort_key
        newest_sort_key rev_newest_oldest)
qed

theorem newest_reversed_is_oldest_witness:
  "distinct (map createdAt (images small_gallery))
   \<and> rev (filteredImages (filterAndSortImages (small_gallery\<lparr>sortBy := ''newest''\<rparr>))) = [cat, dog]
   \<and> filteredImages (filterAndSortImages (small_gallery\<lparr>sortBy := ''oldest''\<rparr>)) = [cat, dog]"
proof -
  have d: "distinct (map createdAt (images small_gallery))"
    by (simp add: small_gallery_def cat_def dog_def)
  have e: "filteredImages (filterAndSortImages (small_gallery\<lparr>sortBy := ''oldest''\<rparr>)) = [cat, dog]"
    by (simp add: filterAndSortImages_def filtered_sorted_def small_gallery_def trim_def
        array_sort_def compare_images_def cat_def dog_def)
  from newest_reversed_is_oldest [OF d] d e show ?thesis
    by simp
qed

section \<open>Properties of the mutating operations\<close>

lemma saveImages_eq:
  "saveImages u g =
     (if accepts (localStorage g) ''gallery-images'' (JSON_stringify u)
      then Inr (g\<lparr>localStorage := (localStorage g)
                    \<lparr>items := (items (localStorage g))(''gallery-images'' \<mapsto> JSON_stringify u),
                     writes := writes (localStorage g) @ [(''gallery-images'', JSON_stringify u)]\<rparr>,
                images := u\<rparr>)
      else Inl QuotaExceededError)"
  by (simp add: saveImages_def setItem_def)

lemma toggleFavorite_Inr:
  assumes "toggleFavorite imageId g = Inr g'"
  shows "images g' = map (\<lambda>img. if id_img img = imageId then img\<lparr>isFavorite := \<not> isFavorite img\<rparr>
                        else img) (images g)"
    and "items (localStorage g') = (items (localStorage g))(''gallery-images'' \<mapsto> JSON_stringify (images g'))"
    and "writes (localStorage g') = writes (localStorage g) @ [(''gallery-images'', JSON_stringify (images g'))]"
    and "accepts (localStorage g') = accepts (localStorage g)"
    and "accepts (localStorage g) ''gallery-images'' (JSON_stringify (images g'))"
  using assms
  by (auto simp: toggleFavorite_def toast_def Let_def saveImages_eq split: if_splits)

lemma toggleFavorite_Inl: "toggleFavorite imageId g = Inl e \<Longrightarrow> e = QuotaExceededError"
  by (auto simp: toggleFavorite_def Let_def saveImages_eq split: if_splits)

lemma deleteImage_Inr:
  assumes "deleteImage imageId g = Inr g'"
  shows "images g' = filter (\<lambda>img. id_img img \<noteq> imageId) (images g)"
    and "items (localStorage g') = (items (localStorage g))(''gallery-images'' \<mapsto> JSON_stringify (images g'))"
    and "writes (localStorage g') = writes (localStorage g) @ [(''gallery-images'', JSON_stringify (images g'))]"
    and "accepts (localStorage g') = accepts (localStorage g)"
    and "accepts (localStorage g) ''gallery-images'' (JSON_stringify (images g'))"
  using assms
  by (auto simp: deleteImage_def toast_def Let_def saveImages_eq split: if_splits)

lemma deleteImage_Inl: "deleteImage imageId g = Inl e \<Longrightarrow> e = QuotaExceededError"
  by (auto simp: deleteImage_def Let_def saveImages_eq split: if_splits)


lemma toggle_twice:
  "map (\<lambda>img. if id_img img = imageId then img\<lparr>isFavorite := \<not> isFavorite img\<rparr> else img)
     (map (\<lambda>img. if id_img img = imageId then img\<lparr>isFavorite := \<not> isFavorite img\<rparr> else img) imgs)
   = imgs"
  by (induction imgs) auto





text \<open>
  C3. Each of the two mutating operations, \<open>toggleFavorite\<close> and
  \<open>deleteImage\<close>, either fails because the store refused the write, with
  nothing written and the collection never replaced, or returns with exactly
  one write added to the store's log, of the whole new collection under the
  one key, after which the store holds the serialisation of the collection in
  memory.
\<close>

theorem mutation_writes_through_once:
  assumes "op = toggleFavorite imageId \<or> op = deleteImage imageId"
  shows "case op g of
           Inl e \<Rightarrow> e = QuotaExceededError
         | Inr g' \<Rightarrow>
             writes (localStorage g') =
               writes (localStorage g) @ [(''gallery-images'', JSON_stringify (images g'))]
             \<and> getItem ''gallery-images'' (localStorage g') = Some (JSON_stringify (images g'))"
proof (cases "op g")
  case (Inl e)
  with assms have "e = QuotaExceededError"
    by (auto dest: toggleFavorite_Inl deleteImage_Inl)
  with Inl show ?thesis by simp
next
  case (Inr g')
  from assms show ?thesis
  proof
    assume "op = toggleFavorite imageId"
    with Inr have r: "toggleFavorite imageId g = Inr g'" by simp
    show ?thesis
      by (simp add: Inr getItem_def toggleFavorite_Inr(2,3) [OF r])
  next
    assume "op = deleteImage imageId"
    with Inr have r: "deleteImage imageId g = Inr g'" by simp
    show ?thesis
      by (simp add: Inr getItem_def deleteImage_Inr(2,3) [OF r])
  qed
qed

theorem mutation_writes_through_once_witness:
  "(case toggleFavorite ''2'' small_gallery of
      Inl e \<Rightarrow> False
    | Inr g' \<Rightarrow>
        images g' = [cat, dog\<lparr>isFavorite := False\<rparr>]
        \<and> writes (localStorage g') = [(''gallery-images'', JSON_stringify (images g'))]
        \<and> getItem ''gallery-images'' (localStorage g') = Some (JSON_stringify (images g')))
   \<and> (case deleteImage ''2'' small_gallery of
      Inl e \<Rightarrow> False
    | Inr g' \<Rightarrow>
        images g' = [cat]
        \<and> writes (localStorage g') = [(''gallery-images'', JSON_stringify (images g'))]
        \<and> getItem ''gallery-images'' (localStorage g') = Some (JSON_stringify (images g')))"
proof -
  have "toggleFavorite ''2'' = toggleFavorite ''2'' \<or> toggleFavorite ''2'' = deleteImage ''2''"
    by simp
  from mutation_writes_through_once [OF this, of small_gallery]
  have 1: "case toggleFavorite ''2'' small_gallery of
      Inl e \<Rightarrow> False
    | Inr g' \<Rightarrow>
        images g' = [cat, dog\<lparr>isFavorite := False\<rparr>]
        \<and> writes (localStorage g') = [(''gallery-images'', JSON_stringify (images g'))]
        \<and> getItem ''gallery-images'' (localStorage g') = Some (JSON_stringify (images g'))"
    by (simp add: toggleFavorite_def Let_def saveImages_eq toast_def small_gallery_def
        empty_store_def cat_def dog_def getItem_def)
  have "deleteImage ''2'' = toggleFavorite ''2'' \<or> deleteImage ''2'' = deleteImage ''2''"
    by simp
  from mutation_writes_through_once [OF this, of small_gallery]
  have 2: "case deleteImage ''2'' small_gallery of
      Inl e \<Rightarrow> False
    | Inr g' \<Rightarrow>
        images g' = [cat]
        \<and> writes (localStorage g') = [(''gallery-images'', JSON_stringify (images g'))]
        \<and> getItem ''gallery-images'' (localStorage g') = Some (JSON_stringify (images g'))"
    by (simp add: deleteImage_def Let_def saveImages_eq toast_def small_gallery_def
        empty_store_def cat_def dog_def getItem_def)
  from 1 2 show ?thesis by simp
qed

text \<open>
  C8. Toggling the same id twice in succession brings the collection back to
  what it was, so every image, the toggled one among them, has its original
  \<open>isFavorite\<close>, and the store holds the original collection again.
\<close>

theorem toggleFavorite_twice:
  assumes "toggleFavorite imageId g = Inr g1" and "toggleFavorite imageId g1 = Inr g2"
  shows "images g2 = images g
       \<and> (\<forall>i < length (images g). isFavorite (images g2 ! i) = isFavorite (images g ! i))
       \<and> getItem ''gallery-images'' (localStorage g2) = Some (JSON_stringify (images g))"
proof -
  have "images g2 = images g"
    unfolding toggleFavorite_Inr(1) [OF assms(2)] toggleFavorite_Inr(1) [OF assms(1)]
    by (rule toggle_twice)
  then show ?thesis
    by (simp add: getItem_def toggleFavorite_Inr(2) [OF assms(2)])
qed

theorem toggleFavorite_twice_witness:
  "(case toggleFavorite ''2'' small_gallery of
      Inl e \<Rightarrow> False
    | Inr g1 \<Rightarrow>
        map isFavorite (images g1) = [False, False]
        \<and> (case toggleFavorite ''2'' g1 of
             Inl e \<Rightarrow> False
           | Inr g2 \<Rightarrow> images g2 = [cat, dog]))"
proof -
  obtain g1 where 1: "toggleFavorite ''2'' small_gallery = Inr g1"
    by (simp add: toggleFavorite_def Let_def saveImages_eq small_gallery_def empty_store_def)
  have a: "accepts (localStorage g1) = (\<lambda>k v. True)"
    by (simp add: toggleFavorite_Inr(4) [OF 1] small_gallery_def empty_store_def)
  obtain g2 where 2: "toggleFavorite ''2'' g1 = Inr g2"
    by (simp add: toggleFavorite_def Let_def saveImages_eq a)
  from toggleFavorite_twice [OF 1 2] have "images g2 = [cat, dog]"
    by (simp add: small_gallery_def)
  moreover have "map isFavorite (images g1) = [False, False]"
    by (simp add: toggleFavorite_Inr(1) [OF 1] small_gallery_def cat_def dog_def)
  ultimately show ?thesis
    by (simp add: 1 2)
qed

text \<open>
  C9. \<open>deleteImage\<close> keeps exactly the images whose id differs from the
  given one, so none with that id is left; with an id that no image has the
  collection stays as it is. It has no not-found failure: it fails only when
  the store refuses the write, and after one successful delete a second delete
  of the same id succeeds and leaves the collection and the stored items as
  the first one left them.
\<close>

theorem deleteImage_idempotent:
  "(\<forall>g1. deleteImage imageId g = Inr g1 \<longrightarrow>
       images g1 = filter (\<lambda>img. id_img img \<noteq> imageId) (images g)
     \<and> imageId \<notin> id_img ` set (images g1)
     \<and> (imageId \<notin> id_img ` set (images g) \<longrightarrow> images g1 = images g)
     \<and> (\<exists>g2. deleteImage imageId g1 = Inr g2 \<and> images g2 = images g1
             \<and> items (localStorage g2) = items (localStorage g1)))
   \<and> (\<forall>e. deleteImage imageId g = Inl e \<longrightarrow> e = QuotaExceededError)
   \<and> (accepts (localStorage g) ''gallery-images''
          (JSON_stringify (filter (\<lambda>img. id_img img \<noteq> imageId) (images g))) \<longrightarrow>
        (\<exists>g1. deleteImage imageId g = Inr g1))"
proof (intro conjI allI impI)
  fix g1 assume r: "deleteImage imageId g = Inr g1"
  note f = deleteImage_Inr [OF r]
  show 1: "images g1 = filter (\<lambda>img. id_img img \<noteq> imageId) (images g)"
    by (rule f(1))
  show "imageId \<notin> id_img ` set (images g1)"
    by (auto simp: 1)
  have same: "filter (\<lambda>img. id_img img \<noteq> imageId) (images g1) = images g1"
    by (simp add: 1)
  have acc: "accepts (localStorage g1) ''gallery-images'' (JSON_stringify (images g1))"
    by (simp add: f(4) f(5))
  show "\<exists>g2. deleteImage imageId g1 = Inr g2 \<and> images g2 = images g1
             \<and> items (localStorage g2) = items (localStorage g1)"
    by (simp add: deleteImage_def Let_def same saveImages_eq acc toast_def f(2))
  assume "imageId \<notin> id_img ` set (images g)"
  then have "filter (\<lambda>img. id_img img \<noteq> imageId) (images g) = images g"
    by (auto simp: filter_id_conv)
  with 1 show "images g1 = images g" by simp
next
  fix e assume "deleteImage imageId g = Inl e"
  then show "e = QuotaExceededError" by (rule deleteImage_Inl)
next
  assume "accepts (localStorage g) ''gallery-images''
          (JSON_stringify (filter (\<lambda>img. id_img img \<noteq> imageId) (images g)))"
  then show "\<exists>g1. deleteImage imageId g = Inr g1"
    by (simp add: deleteImage_def Let_def saveImages_eq)
qed

theorem deleteImage_idempotent_witness:
  "(case deleteImage ''1'' small_gallery of
      Inl e \<Rightarrow> False
    | Inr g1 \<Rightarrow>
        images g1 = [dog]
        \<and> (\<exists>g2. deleteImage ''1'' g1 = Inr g2 \<and> images g2 = [dog]))"
proof -
  obtain g1 where 1: "deleteImage ''1'' small_gallery = Inr g1"
    by (simp add: deleteImage_def Let_def saveImages_eq small_gallery_def empty_store_def)
  from deleteImage_idempotent [of "''1''" small_gallery] 1
  have "images g1 = filter (\<lambda>img. id_img img \<noteq> ''1'') (images small_gallery)"
    and "\<exists>g2. deleteImage ''1'' g1 = Inr g2 \<and> images g2 = images g1"
    by blast+
  then have "images g1 = [dog]" and "\<exists>g2. deleteImage ''1'' g1 = Inr g2 \<and> images g2 = [dog]"
    by (simp_all add: small_gallery_def cat_def dog_def)
  then show ?thesis
    by (simp add: 1)
qed

text \<open>
  C10. Frame condition of \<open>toggleFavorite\<close>: the collection keeps its length
  and the order of its ids; the image at each position is the old one with at
  most \<open>isFavorite\<close> changed, every other field as before; and an image
  whose id is not the given one is unchanged.
\<close>

theorem toggleFavorite_frame:
  assumes "toggleFavorite imageId g = Inr g'"
  shows "length (images g') = length (images g)
       \<and> map id_img (images g') = map id_img (images g)
       \<and> (\<forall>i < length (images g).
            images g' ! i = (images g ! i)\<lparr>isFavorite := isFavorite (images g' ! i)\<rparr>
            \<and> (id_img (images g ! i) \<noteq> imageId \<longrightarrow> images g' ! i = images g ! i))"
  by (simp add: toggleFavorite_Inr(1) [OF assms] comp_def)

theorem toggleFavorite_frame_witness:
  "(case toggleFavorite ''2'' small_gallery of
      Inl e \<Rightarrow> False
    | Inr g' \<Rightarrow>
        length (images g') = 2 \<and> images g' ! 0 = cat
        \<and> images g' ! 1 = dog\<lparr>isFavorite := isFavorite (images g' ! 1)\<rparr>)"
proof -
  obtain g' where 1: "toggleFavorite ''2'' small_gallery = Inr g'"
    by (simp add: toggleFavorite_def Let_def saveImages_eq small_gallery_def empty_store_def)
  from toggleFavorite_frame [OF 1]
  have "length (images g') = 2"
    and "images g' ! 1 = (images small_gallery ! 1)\<lparr>isFavorite := isFavorite (images g' ! 1)\<rparr>"
    and "id_img (images small_gallery ! 0) \<noteq> ''2'' \<longrightarrow> images g' ! 0 = images small_gallery ! 0"
    by (simp_all add: small_gallery_def All_less_Suc)
  then have "length (images g') = 2" and "images g' ! 0 = cat"
    and "images g' ! 1 = dog\<lparr>isFavorite := isFavorite (images g' ! 1)\<rparr>"
    by (simp_all add: small_gallery_def cat_def)
  then show ?thesis
    by (simp add: 1)
qed


section \<open>Properties of loading\<close>








end
